theory Spec2Isabelle
  imports Complex_Main
begin

section \<open>Scenario runs of the energy scheduling model (1b-scenarios.py)\<close>

text \<open>
  The script builds, for every scenario, a 24 hour optimisation model, hands it to the
  Gurobi library, reads the answer back, draws two plots and collects one summary row.
  The development below follows the script line by line. Three things lie outside the
  script and are modelled as follows.
  \<^item> Python floats are the reals of HOL; rounding is not modelled.
  \<^item> The solver is a parameter: a function from the model that was built to what the
    library reports afterwards, that is the attribute \<open>status\<close> and the attributes
    \<open>X\<close> and \<open>ObjVal\<close>, which the library only provides when it holds a solution
    (reading one of them otherwise raises \<open>AttributeError\<close>).
  \<^item> Of the plotting library only two things are kept: \<open>plot\<close> raises \<open>ValueError\<close>
    when the two sequences it is given differ in length, and \<open>savefig\<close> writes a file,
    or raises \<open>FileNotFoundError\<close> when the directory of the file does not exist.
  Reading and parsing the JSON files is not modelled: the main program starts from the
  parsed values. The file \<open>bus_params.json\<close> is read by the script and never used.
\<close>

subsection \<open>Errors and subscripts\<close>

datatype py_error =
    KeyError string
  | IndexError
  | AttributeError string
  | ValueError
  | FileNotFoundError

text \<open>\<open>d[k]\<close> on a dictionary: the field of the parsed object is \<open>None\<close> when the key is absent.\<close>

definition subscript_key :: "string \<Rightarrow> 'a option \<Rightarrow> py_error + 'a" where
  "subscript_key k field = (case field of None \<Rightarrow> Inl (KeyError k) | Some v \<Rightarrow> Inr v)"

text \<open>\<open>xs[i]\<close> on a list, for the indices \<open>i \<ge> 0\<close> the script uses.\<close>

definition subscript :: "'a list \<Rightarrow> nat \<Rightarrow> py_error + 'a" where
  "subscript xs i = (if i < length xs then Inr (xs ! i) else Inl IndexError)"

text \<open>An exception ends the statements that follow it.\<close>

definition and_then :: "py_error + 'a \<Rightarrow> ('a \<Rightarrow> py_error + 'b) \<Rightarrow> py_error + 'b" where
  "and_then r f = (case r of Inl e \<Rightarrow> Inl e | Inr v \<Rightarrow> f v)"

subsection \<open>The parsed input files\<close>

text \<open>
  Each JSON object is a record of its keys, a key that may be missing being an option.
  The key \<open>hourly_profile_ratio\<close> occurs in the PV production file and in the usage
  preference file; the last two keys of a scenario are \<open>import_tariff_DKK/kWh\<close> and
  \<open>export_tariff_DKK/kWh\<close> in the files.
\<close>

record load_entry =
  key_max_load_kWh_per_hour :: "real option"

record appliance_bundle =
  key_load :: "load_entry list option"

record profile_entry =
  key_hourly_profile_ratio :: "real list option"

record usage_entry =
  key_load_preferences :: "profile_entry list option"

record scenario_entry =
  key_scenario :: "string option"
  key_energy_price_DKK_per_kWh :: "real list option"
  key_max_import_kW :: "real option"
  key_max_export_kW :: "real option"
  key_import_tariff_DKK_kWh :: "real option"
  key_export_tariff_DKK_kWh :: "real option"

record inputs =
  appl_params :: appliance_bundle
  der_production :: "profile_entry list"
  usage_preference :: "usage_entry list"
  scenarios :: "scenario_entry list"

subsection \<open>The optimisation model as the library records it\<close>

text \<open>
  A variable is identified by its family and its hour: \<open>Var_L t\<close> is the object stored
  at \<open>Lt[t]\<close> (named \<open>L{t}\<close>), \<open>Var_g_imp t\<close> the one at \<open>gt_imp[t]\<close>, and so on.
\<close>

datatype var =
    Var_L nat
  | Var_u nat
  | Var_c nat
  | Var_g_imp nat
  | Var_g_exp nat
  | Var_HC nat
  | Var_D nat

text \<open>A bound is a float: a finite number, \<open>float("inf")\<close> or its negation.\<close>

datatype bound = MinusInf | Fin real | PlusInf

fun neg_bound :: "bound \<Rightarrow> bound" where
  "neg_bound MinusInf = PlusInf"
| "neg_bound (Fin r) = Fin (- r)"
| "neg_bound PlusInf = MinusInf"

datatype vtype = CONTINUOUS | BINARY | INTEGER

record var_decl =
  dvar :: var
  lb :: bound
  ub :: bound
  dvtype :: vtype

datatype expr =
    Num real
  | V var
  | Add expr expr
  | Sub expr expr
  | Mul expr expr
  | Square expr
  | Quicksum "expr list"

datatype sense = EQUAL | LESS_EQUAL | GREATER_EQUAL

datatype objsense = MINIMIZE | MAXIMIZE

text \<open>The name of a constraint: \<open>PV_allocation t\<close> stands for \<open>f"PV_allocation_{t}"\<close>.\<close>

datatype cname =
    PV_allocation nat
  | Energy_balance nat
  | Hourly_cost nat
  | Discomfort nat

record constr =
  cname :: cname
  lhs :: expr
  csense :: sense
  rhs :: expr

record model =
  vars :: "var_decl list"
  constrs :: "constr list"
  objective_expr :: expr
  model_sense :: objsense

text \<open>\<open>gp.Model(...)\<close>: no variable, no constraint, the objective \<open>0\<close>, to be minimised.\<close>

definition new_model :: model where
  "new_model = \<lparr>vars = [], constrs = [], objective_expr = Num 0, model_sense = MINIMIZE\<rparr>"

text \<open>
  \<open>{t: model.addVar(lo, hi, vtype=GRB.CONTINUOUS, name=...) for t in HOURS}\<close>: one
  variable of the family per hour, added in the order of the hours.
\<close>

definition addVar :: "var \<Rightarrow> bound \<Rightarrow> bound \<Rightarrow> vtype \<Rightarrow> model \<Rightarrow> model" where
  "addVar v lo hi ty m = m\<lparr>vars := vars m @ [\<lparr>dvar = v, lb = lo, ub = hi, dvtype = ty\<rparr>]\<rparr>"

fun addVars :: "(nat \<Rightarrow> var) \<Rightarrow> bound \<Rightarrow> bound \<Rightarrow> nat list \<Rightarrow> model \<Rightarrow> model" where
  "addVars family lo hi [] m = m"
| "addVars family lo hi (t # ts) m = addVars family lo hi ts (addVar (family t) lo hi CONTINUOUS m)"

text \<open>
  \<open>model.addLConstr(lhs, sense, rhs, name)\<close> and \<open>model.addConstr(lhs == rhs, name)\<close>
  both append one constraint.
\<close>

definition addConstr :: "expr \<Rightarrow> sense \<Rightarrow> expr \<Rightarrow> cname \<Rightarrow> model \<Rightarrow> model" where
  "addConstr l s r n m = m\<lparr>constrs := constrs m @ [\<lparr>cname = n, lhs = l, csense = s, rhs = r\<rparr>]\<rparr>"

definition setObjective :: "expr \<Rightarrow> objsense \<Rightarrow> model \<Rightarrow> model" where
  "setObjective e s m = m\<lparr>objective_expr := e, model_sense := s\<rparr>"

subsection \<open>What an assignment of the variables means for a model\<close>

fun eval :: "(var \<Rightarrow> real) \<Rightarrow> expr \<Rightarrow> real" where
  "eval x (Num r) = r"
| "eval x (V v) = x v"
| "eval x (Add a b) = eval x a + eval x b"
| "eval x (Sub a b) = eval x a - eval x b"
| "eval x (Mul a b) = eval x a * eval x b"
| "eval x (Square a) = (eval x a)\<^sup>2"
| "eval x (Quicksum es) = sum_list (map (eval x) es)"

fun holds :: "(var \<Rightarrow> real) \<Rightarrow> constr \<Rightarrow> bool" where
  "holds x k =
     (case csense k of
        EQUAL \<Rightarrow> eval x (lhs k) = eval x (rhs k)
      | LESS_EQUAL \<Rightarrow> eval x (lhs k) \<le> eval x (rhs k)
      | GREATER_EQUAL \<Rightarrow> eval x (lhs k) \<ge> eval x (rhs k))"

fun above :: "bound \<Rightarrow> real \<Rightarrow> bool" where
  "above MinusInf r = True"
| "above (Fin l) r = (l \<le> r)"
| "above PlusInf r = False"

fun below :: "bound \<Rightarrow> real \<Rightarrow> bool" where
  "below PlusInf r = True"
| "below (Fin h) r = (r \<le> h)"
| "below MinusInf r = False"

definition in_bounds :: "(var \<Rightarrow> real) \<Rightarrow> var_decl \<Rightarrow> bool" where
  "in_bounds x d = (above (lb d) (x (dvar d)) \<and> below (ub d) (x (dvar d)))"

fun expr_vars :: "expr \<Rightarrow> var set" where
  "expr_vars (Num r) = {}"
| "expr_vars (V v) = {v}"
| "expr_vars (Add a b) = expr_vars a \<union> expr_vars b"
| "expr_vars (Sub a b) = expr_vars a \<union> expr_vars b"
| "expr_vars (Mul a b) = expr_vars a \<union> expr_vars b"
| "expr_vars (Square a) = expr_vars a"
| "expr_vars (Quicksum es) = \<Union> (set (map expr_vars es))"

definition constr_vars :: "constr \<Rightarrow> var set" where
  "constr_vars k = expr_vars (lhs k) \<union> expr_vars (rhs k)"

fun var_hour :: "var \<Rightarrow> nat" where
  "var_hour (Var_L t) = t"
| "var_hour (Var_u t) = t"
| "var_hour (Var_c t) = t"
| "var_hour (Var_g_imp t) = t"
| "var_hour (Var_g_exp t) = t"
| "var_hour (Var_HC t) = t"
| "var_hour (Var_D t) = t"

fun cname_hour :: "cname \<Rightarrow> nat" where
  "cname_hour (PV_allocation t) = t"
| "cname_hour (Energy_balance t) = t"
| "cname_hour (Hourly_cost t) = t"
| "cname_hour (Discomfort t) = t"

subsection \<open>Building the model: lines 31 to 55 of \<open>run_model_1b\<close>\<close>

text \<open>The keyword arguments of \<open>run_model_1b\<close>; \<open>None\<close> is a keyword left out.\<close>

record args =
  scenario :: string
  Lmin_t :: real
  Lmax_t :: real
  Pt_PV :: "real list"
  pt :: "real list"
  Lt_ref :: "real list"
  max_import_kW :: real
  max_export_kW :: real
  tau_imp :: real
  tau_exp :: real
  alpha :: "real option"
  model_prefix :: "string option"

definition alpha_of :: "args \<Rightarrow> real" where
  "alpha_of a = (case alpha a of None \<Rightarrow> 10 | Some v \<Rightarrow> v)"

definition model_prefix_of :: "args \<Rightarrow> string" where
  "model_prefix_of a = (case model_prefix a of None \<Rightarrow> ''1b'' | Some p \<Rightarrow> p)"

definition HOURS :: "nat list" where
  "HOURS = [0..<24]"

text \<open>
  Lines 37 to 43, with \<open>lb = 0.0\<close> and \<open>ub = float("inf")\<close>; the call
  \<open>model.update()\<close> after them changes nothing that is recorded here.
\<close>

definition declare_variables :: "args \<Rightarrow> model \<Rightarrow> model" where
  "declare_variables a m =
     (let lb0 = Fin 0; ub0 = PlusInf;
          m1 = addVars Var_L (Fin (Lmin_t a)) (Fin (Lmax_t a)) HOURS m;
          m2 = addVars Var_u lb0 ub0 HOURS m1;
          m3 = addVars Var_c lb0 ub0 HOURS m2;
          m4 = addVars Var_g_imp lb0 (Fin (max_import_kW a)) HOURS m3;
          m5 = addVars Var_g_exp lb0 (Fin (max_export_kW a)) HOURS m4;
          m6 = addVars Var_HC (neg_bound ub0) ub0 HOURS m5
      in addVars Var_D lb0 ub0 HOURS m6)"

text \<open>
  The body of the loop of lines 48 to 52 at hour \<open>t\<close>. The three profile reads raise
  \<open>IndexError\<close> past the end of the list, in the order the statements come.
\<close>

definition hour_constraints :: "args \<Rightarrow> nat \<Rightarrow> model \<Rightarrow> py_error + model" where
  "hour_constraints a t m =
     and_then (subscript (Pt_PV a) t) (\<lambda>pv.
       let m1 = addConstr (Add (V (Var_u t)) (V (Var_c t))) EQUAL (Num pv) (PV_allocation t) m;
           m2 = addConstr (Add (V (Var_u t)) (V (Var_g_imp t))) EQUAL
                  (Add (V (Var_L t)) (V (Var_g_exp t))) (Energy_balance t) m1
       in and_then (subscript (pt a) t) (\<lambda>p.
         let m3 = addConstr
                    (Sub (Mul (Num (p + tau_imp a)) (V (Var_g_imp t)))
                         (Mul (Num (p - tau_exp a)) (V (Var_g_exp t))))
                    EQUAL (V (Var_HC t)) (Hourly_cost t) m2
         in and_then (subscript (Lt_ref a) t) (\<lambda>ref.
           Inr (addConstr (Square (Sub (Num ref) (V (Var_L t)))) EQUAL (V (Var_D t))
                  (Discomfort t) m3))))"

fun for_hours :: "(nat \<Rightarrow> model \<Rightarrow> py_error + model) \<Rightarrow> nat list \<Rightarrow> model \<Rightarrow> py_error + model" where
  "for_hours body [] m = Inr m"
| "for_hours body (t # ts) m = and_then (body t m) (for_hours body ts)"

text \<open>Line 55: \<open>gp.quicksum(alpha * Dt[t] + HCt[t] for t in HOURS)\<close>, to be minimised.\<close>

definition objective_of :: "args \<Rightarrow> expr" where
  "objective_of a = Quicksum (map (\<lambda>t. Add (Mul (Num (alpha_of a)) (V (Var_D t))) (V (Var_HC t))) HOURS)"

definition build_model :: "args \<Rightarrow> py_error + model" where
  "build_model a =
     and_then (for_hours (hour_constraints a) HOURS (declare_variables a new_model))
       (\<lambda>m. Inr (setObjective (objective_of a) MINIMIZE m))"

subsection \<open>The answer of the solver\<close>

text \<open>
  \<open>model.status\<close> after \<open>model.optimize()\<close>: the three codes the script tests, and
  \<open>OTHER n\<close> for every other code \<open>n\<close> of the library.
\<close>

datatype status = OPTIMAL | INFEASIBLE | UNBOUNDED | OTHER nat

text \<open>
  \<open>X\<close> holds the value of every variable and \<open>ObjVal\<close> the objective value when the
  library has a solution to report; they are \<open>None\<close> when it has none, as for a model
  found infeasible.
\<close>

record solved =
  status :: status
  X :: "(var \<Rightarrow> real) option"
  ObjVal :: "real option"

type_synonym solver = "model \<Rightarrow> solved"

definition attribute :: "string \<Rightarrow> 'a option \<Rightarrow> py_error + 'a" where
  "attribute n field = (case field of None \<Rightarrow> Inl (AttributeError n) | Some v \<Rightarrow> Inr v)"

subsection \<open>The world outside the script\<close>

record summary_row =
  Scenario :: string
  Primal_Objective :: "real option"

text \<open>
  A printed line, by the statement that prints it: \<open>Running s\<close> is
  \<open>--- Running s ---\<close>, \<open>Successful s v\<close> is
  \<open>Optimization s successful! Objective = v\<close>, \<open>Is_infeasible s\<close> is
  \<open>Model s is infeasible.\<close>, \<open>Is_unbounded s\<close> is \<open>Model s is unbounded.\<close>,
  \<open>Ended_with_status c\<close> is \<open>Optimization ended with status: c\<close>,
  \<open>No_results_found\<close> is \<open>No results found. Please run the scenarios first.\<close>,
  \<open>Summary_header\<close> is \<open>===== RESULTS SUMMARY =====\<close> and \<open>Data_frame rows\<close> is the
  printed table.
\<close>

datatype out =
    Running string
  | Successful string real
  | Is_infeasible string
  | Is_unbounded string
  | Ended_with_status status
  | No_results_found
  | Summary_header
  | Data_frame "summary_row list"

record world =
  dirs :: "string set"
  files :: "string set"
  stdout :: "out list"

text \<open>
  A statement with effects takes the world and returns the world it leaves, also when
  it raises.
\<close>

type_synonym 'a io = "world \<Rightarrow> world \<times> (py_error + 'a)"

definition io_return :: "'a \<Rightarrow> 'a io" where
  "io_return v w = (w, Inr v)"

definition io_lift :: "py_error + 'a \<Rightarrow> 'a io" where
  "io_lift r w = (w, r)"

definition io_bind :: "'a io \<Rightarrow> ('a \<Rightarrow> 'b io) \<Rightarrow> 'b io" where
  "io_bind f g w = (case f w of (w', Inl e) \<Rightarrow> (w', Inl e) | (w', Inr v) \<Rightarrow> g v w')"

definition print :: "out \<Rightarrow> unit io" where
  "print line w = (w\<lparr>stdout := stdout w @ [line]\<rparr>, Inr ())"

text \<open>
  \<open>os.makedirs(name, exist_ok=True)\<close> for a relative path without empty components:
  the directory and every parent it lacks exist afterwards.
\<close>

fun dir_chain :: "string \<Rightarrow> string \<Rightarrow> string list" where
  "dir_chain acc [] = [acc]"
| "dir_chain acc (ch # rest) =
     (if ch = CHR ''/'' then acc # dir_chain (acc @ [ch]) rest else dir_chain (acc @ [ch]) rest)"

definition makedirs :: "string \<Rightarrow> unit io" where
  "makedirs name w = (w\<lparr>dirs := dirs w \<union> set (dir_chain [] name)\<rparr>, Inr ())"

text \<open>\<open>os.path.join(a, b)\<close> on POSIX paths.\<close>

definition path_join :: "string \<Rightarrow> string \<Rightarrow> string" where
  "path_join a b =
     (if b \<noteq> [] \<and> hd b = CHR ''/'' then b
      else if a = [] \<or> last a = CHR ''/'' then a @ b
      else a @ ''/'' @ b)"

text \<open>
  \<open>os.path.dirname(path)\<close> on POSIX paths: what stands before the last slash, without
  the slashes at its end unless it consists of slashes only.
\<close>

definition is_slash :: "char \<Rightarrow> bool" where
  "is_slash ch = (ch = CHR ''/'')"

definition dirname :: "string \<Rightarrow> string" where
  "dirname path =
     (let head = rev (dropWhile (\<lambda>ch. \<not> is_slash ch) (rev path))
      in if head \<noteq> [] \<and> \<not> list_all is_slash head then rev (dropWhile is_slash (rev head))
         else head)"

text \<open>
  A file can be created where its directory exists: the current directory (the empty
  name), the root (slashes only) or a directory of the world.
\<close>

definition can_write :: "string set \<Rightarrow> string \<Rightarrow> bool" where
  "can_write ds path = (list_all is_slash (dirname path) \<or> dirname path \<in> ds)"

text \<open>
  \<open>plt.savefig(path)\<close> writes the file, or raises \<open>FileNotFoundError\<close> when the
  directory of the path does not exist.
\<close>

definition savefig :: "string \<Rightarrow> unit io" where
  "savefig path w =
     (if can_write (dirs w) path then (w\<lparr>files := insert path (files w)\<rparr>, Inr ())
      else (w, Inl FileNotFoundError))"

text \<open>\<open>plot(xs, ys)\<close> for each of the series \<open>yss\<close> in turn.\<close>

definition plot :: "nat list \<Rightarrow> real list list \<Rightarrow> py_error + unit" where
  "plot xs yss = (if list_all (\<lambda>ys. length ys = length xs) yss then Inr () else Inl ValueError)"

subsection \<open>The routine \<open>run_model_1b\<close>\<close>

record scenario_result =
  Lt :: "real list"
  ut :: "real list"
  ct :: "real list"
  gt_imp :: "real list"
  gt_exp :: "real list"
  objective :: "real option"

definition results_folder :: string where
  "results_folder = ''src/scenario-results''"

text \<open>Lines 58 to 65: the line printed for the status.\<close>

definition report_status :: "string \<Rightarrow> solved \<Rightarrow> py_error + out" where
  "report_status sc s =
     (if status s = OPTIMAL then and_then (attribute ''ObjVal'' (ObjVal s)) (\<lambda>v. Inr (Successful sc v))
      else if status s = INFEASIBLE then Inr (Is_infeasible sc)
      else if status s = UNBOUNDED then Inr (Is_unbounded sc)
      else Inr (Ended_with_status (status s)))"

text \<open>Lines 67 to 71: \<open>[Lt[t].X for t in HOURS]\<close> and the four lists after it.\<close>

definition values_of :: "solved \<Rightarrow> (nat \<Rightarrow> var) \<Rightarrow> py_error + real list" where
  "values_of s family = and_then (attribute ''X'' (X s)) (\<lambda>x. Inr (map (\<lambda>t. x (family t)) HOURS))"

text \<open>Line 121: \<open>model.ObjVal if model.status == GRB.OPTIMAL else None\<close>.\<close>

definition objective_or_none :: "solved \<Rightarrow> py_error + real option" where
  "objective_or_none s =
     (if status s = OPTIMAL then and_then (attribute ''ObjVal'' (ObjVal s)) (\<lambda>v. Inr (Some v))
      else Inr None)"

definition plot_file :: "args \<Rightarrow> string \<Rightarrow> string" where
  "plot_file a suffix =
     path_join results_folder (model_prefix_of a @ ''-scenario-'' @ scenario a @ suffix)"

definition run_model_1b :: "solver \<Rightarrow> args \<Rightarrow> scenario_result io" where
  "run_model_1b optimize a =
     io_bind (makedirs results_folder) (\<lambda>_.
     io_bind (io_lift (build_model a)) (\<lambda>m.
     let s = optimize m in
     io_bind (io_lift (report_status (scenario a) s)) (\<lambda>line.
     io_bind (print line) (\<lambda>_.
     io_bind (io_lift (values_of s Var_L)) (\<lambda>Lt_values.
     io_bind (io_lift (values_of s Var_u)) (\<lambda>ut_values.
     io_bind (io_lift (values_of s Var_c)) (\<lambda>ct_values.
     io_bind (io_lift (values_of s Var_g_imp)) (\<lambda>gt_imp_values.
     io_bind (io_lift (values_of s Var_g_exp)) (\<lambda>gt_exp_values.
     io_bind (io_lift (plot HOURS [Lt_values, ut_values, ct_values, gt_imp_values,
                                    gt_exp_values, Pt_PV a, Lt_ref a])) (\<lambda>_.
     io_bind (savefig (plot_file a ''-AllDecisionVariables.png'')) (\<lambda>_.
     io_bind (io_lift (plot HOURS [pt a, gt_imp_values, gt_exp_values])) (\<lambda>_.
     io_bind (savefig (plot_file a ''-EnergyPriceVsGrid.png'')) (\<lambda>_.
     io_bind (io_lift (objective_or_none s)) (\<lambda>obj.
     io_return \<lparr>Lt = Lt_values, ut = ut_values, ct = ct_values, gt_imp = gt_imp_values,
                gt_exp = gt_exp_values, objective = obj\<rparr>))))))))))))))"

subsection \<open>The main program\<close>

text \<open>Lines 139 to 142: \<open>Lmin_t\<close>, \<open>Lmax_t\<close>, \<open>Pt_PV\<close> and \<open>Lt_ref\<close>.\<close>

definition load_phase :: "inputs \<Rightarrow> py_error + (real \<times> real \<times> real list \<times> real list)" where
  "load_phase inp =
     and_then (subscript_key ''load'' (key_load (appl_params inp))) (\<lambda>loads.
     and_then (subscript loads 0) (\<lambda>load0.
     and_then (subscript_key ''max_load_kWh_per_hour'' (key_max_load_kWh_per_hour load0)) (\<lambda>lmax.
     and_then (subscript (der_production inp) 0) (\<lambda>der0.
     and_then (subscript_key ''hourly_profile_ratio'' (key_hourly_profile_ratio der0)) (\<lambda>pv.
     and_then (subscript (usage_preference inp) 0) (\<lambda>usage0.
     and_then (subscript_key ''load_preferences'' (key_load_preferences usage0)) (\<lambda>prefs.
     and_then (subscript prefs 0) (\<lambda>pref0.
     and_then (subscript_key ''hourly_profile_ratio'' (key_hourly_profile_ratio pref0)) (\<lambda>ref.
     Inr (0, lmax, pv, ref))))))))))"

text \<open>Lines 148 to 160: the arguments of the call, read from the scenario in this order.\<close>

definition call_args :: "real \<times> real \<times> real list \<times> real list \<Rightarrow> scenario_entry \<Rightarrow> py_error + args" where
  "call_args loaded sc =
     (case loaded of (lmin, lmax, pv, ref) \<Rightarrow>
     and_then (subscript_key ''scenario'' (key_scenario sc)) (\<lambda>name.
     and_then (subscript_key ''energy_price_DKK_per_kWh'' (key_energy_price_DKK_per_kWh sc)) (\<lambda>price.
     and_then (subscript_key ''max_import_kW'' (key_max_import_kW sc)) (\<lambda>imp.
     and_then (subscript_key ''max_export_kW'' (key_max_export_kW sc)) (\<lambda>exp.
     and_then (subscript_key ''import_tariff_DKK/kWh'' (key_import_tariff_DKK_kWh sc)) (\<lambda>timp.
     and_then (subscript_key ''export_tariff_DKK/kWh'' (key_export_tariff_DKK_kWh sc)) (\<lambda>texp.
     Inr \<lparr>scenario = name, Lmin_t = lmin, Lmax_t = lmax, Pt_PV = pv, pt = price, Lt_ref = ref,
          max_import_kW = imp, max_export_kW = exp, tau_imp = timp, tau_exp = texp,
          alpha = None, model_prefix = Some ''1b''\<rparr>)))))))"

text \<open>Lines 147 to 165: the body of the loop for one scenario.\<close>

definition scenario_step ::
  "solver \<Rightarrow> real \<times> real \<times> real list \<times> real list \<Rightarrow> scenario_entry \<Rightarrow> summary_row list \<Rightarrow> summary_row list io" where
  "scenario_step optimize loaded sc results_summary =
     io_bind (io_lift (subscript_key ''scenario'' (key_scenario sc))) (\<lambda>name.
     io_bind (print (Running name)) (\<lambda>_.
     io_bind (io_lift (call_args loaded sc)) (\<lambda>a.
     io_bind (run_model_1b optimize a) (\<lambda>result.
     io_bind (io_lift (subscript_key ''scenario'' (key_scenario sc))) (\<lambda>name'.
     io_return (results_summary @ [\<lparr>Scenario = name', Primal_Objective = objective result\<rparr>]))))))"

fun scenario_loop ::
  "solver \<Rightarrow> real \<times> real \<times> real list \<times> real list \<Rightarrow> scenario_entry list \<Rightarrow> summary_row list \<Rightarrow> summary_row list io" where
  "scenario_loop optimize loaded [] results_summary = io_return results_summary"
| "scenario_loop optimize loaded (sc # rest) results_summary =
     io_bind (scenario_step optimize loaded sc results_summary) (scenario_loop optimize loaded rest)"

text \<open>Lines 167 to 172, and the whole program; it leaves \<open>results_summary\<close> behind.\<close>

definition print_summary :: "summary_row list \<Rightarrow> unit io" where
  "print_summary results_summary =
     (if results_summary = [] then print No_results_found
      else io_bind (print Summary_header) (\<lambda>_. print (Data_frame results_summary)))"

definition main :: "solver \<Rightarrow> inputs \<Rightarrow> summary_row list io" where
  "main optimize inp =
     io_bind (io_lift (load_phase inp)) (\<lambda>loaded.
     io_bind (scenario_loop optimize loaded (scenarios inp) []) (\<lambda>results_summary.
     io_bind (print_summary results_summary) (\<lambda>_.
     io_return results_summary)))"

section \<open>The specification's statements\<close>

text \<open>
  The equation the specification gives for each constraint of hour \<open>t\<close>, read at an
  assignment \<open>x\<close> of the variables.
\<close>

fun spec_equation :: "args \<Rightarrow> (var \<Rightarrow> real) \<Rightarrow> cname \<Rightarrow> bool" where
  "spec_equation a x (PV_allocation t) = (x (Var_u t) + x (Var_c t) = Pt_PV a ! t)"
| "spec_equation a x (Energy_balance t) =
     (x (Var_u t) + x (Var_g_imp t) = x (Var_L t) + x (Var_g_exp t))"
| "spec_equation a x (Hourly_cost t) =
     ((pt a ! t + tau_imp a) * x (Var_g_imp t) - (pt a ! t - tau_exp a) * x (Var_g_exp t)
        = x (Var_HC t))"
| "spec_equation a x (Discomfort t) = ((Lt_ref a ! t - x (Var_L t))\<^sup>2 = x (Var_D t))"

text \<open>The range the specification gives for each variable; \<open>HC\<close> is free.\<close>

fun spec_range :: "args \<Rightarrow> (var \<Rightarrow> real) \<Rightarrow> var \<Rightarrow> bool" where
  "spec_range a x (Var_L t) = (Lmin_t a \<le> x (Var_L t) \<and> x (Var_L t) \<le> Lmax_t a)"
| "spec_range a x (Var_u t) = (0 \<le> x (Var_u t))"
| "spec_range a x (Var_c t) = (0 \<le> x (Var_c t))"
| "spec_range a x (Var_g_imp t) = (0 \<le> x (Var_g_imp t) \<and> x (Var_g_imp t) \<le> max_import_kW a)"
| "spec_range a x (Var_g_exp t) = (0 \<le> x (Var_g_exp t) \<and> x (Var_g_exp t) \<le> max_export_kW a)"
| "spec_range a x (Var_HC t) = True"
| "spec_range a x (Var_D t) = (0 \<le> x (Var_D t))"

text \<open>The three sequences of a call have one entry per hour.\<close>

definition profiles_24 :: "args \<Rightarrow> bool" where
  "profiles_24 a = (length (Pt_PV a) = 24 \<and> length (pt a) = 24 \<and> length (Lt_ref a) = 24)"


text \<open>
  The names of the two plot files of a call have no slash of their own, so that both
  files lie in the results directory.
\<close>

definition plain_call :: "args \<Rightarrow> bool" where
  "plain_call a = (CHR ''/'' \<notin> set (model_prefix_of a @ ''-scenario-'' @ scenario a))"




section \<open>Closed forms used in the proofs\<close>

text \<open>The four constraints the loop adds at hour \<open>t\<close> when the three reads succeed.\<close>

definition hour_block :: "args \<Rightarrow> nat \<Rightarrow> constr list" where
  "hour_block a t =
     [\<lparr>cname = PV_allocation t, lhs = Add (V (Var_u t)) (V (Var_c t)), csense = EQUAL,
        rhs = Num (Pt_PV a ! t)\<rparr>,
      \<lparr>cname = Energy_balance t, lhs = Add (V (Var_u t)) (V (Var_g_imp t)), csense = EQUAL,
        rhs = Add (V (Var_L t)) (V (Var_g_exp t))\<rparr>,
      \<lparr>cname = Hourly_cost t,
        lhs = Sub (Mul (Num (pt a ! t + tau_imp a)) (V (Var_g_imp t)))
                  (Mul (Num (pt a ! t - tau_exp a)) (V (Var_g_exp t))),
        csense = EQUAL, rhs = V (Var_HC t)\<rparr>,
      \<lparr>cname = Discomfort t, lhs = Square (Sub (Num (Lt_ref a ! t)) (V (Var_L t))),
        csense = EQUAL, rhs = V (Var_D t)\<rparr>]"

definition profiles_cover :: "args \<Rightarrow> nat \<Rightarrow> bool" where
  "profiles_cover a t = (t < length (Pt_PV a) \<and> t < length (pt a) \<and> t < length (Lt_ref a))"

definition long_enough :: "args \<Rightarrow> bool" where
  "long_enough a = (24 \<le> length (Pt_PV a) \<and> 24 \<le> length (pt a) \<and> 24 \<le> length (Lt_ref a))"

definition family_decls :: "(nat \<Rightarrow> var) \<Rightarrow> bound \<Rightarrow> bound \<Rightarrow> var_decl list" where
  "family_decls family lo hi =
     map (\<lambda>t. \<lparr>dvar = family t, lb = lo, ub = hi, dvtype = CONTINUOUS\<rparr>) HOURS"

definition all_decls :: "args \<Rightarrow> var_decl list" where
  "all_decls a =
     family_decls Var_L (Fin (Lmin_t a)) (Fin (Lmax_t a)) @
     family_decls Var_u (Fin 0) PlusInf @
     family_decls Var_c (Fin 0) PlusInf @
     family_decls Var_g_imp (Fin 0) (Fin (max_import_kW a)) @
     family_decls Var_g_exp (Fin 0) (Fin (max_export_kW a)) @
     family_decls Var_HC MinusInf PlusInf @
     family_decls Var_D (Fin 0) PlusInf"

text \<open>The world a run leaves: the directories, the lines printed and the files written.\<close>

definition world_after :: "out list \<Rightarrow> string list \<Rightarrow> world \<Rightarrow> world" where
  "world_after lines paths w =
     w\<lparr>dirs := dirs w \<union> {''src'', ''src/scenario-results''},
       stdout := stdout w @ lines,
       files := files w \<union> set paths\<rparr>"

text \<open>
  What a run prints, writes and returns, given the directories that exist when it starts.
\<close>

definition outcome_of ::
  "solver \<Rightarrow> args \<Rightarrow> string set \<Rightarrow> (out list \<times> string list) \<times> (py_error + scenario_result)" where
  "outcome_of optimize a ds =
     (case build_model a of
        Inl e \<Rightarrow> (([], []), Inl e)
      | Inr m \<Rightarrow>
         (case report_status (scenario a) (optimize m) of
            Inl e \<Rightarrow> (([], []), Inl e)
          | Inr line \<Rightarrow>
             (case X (optimize m) of
                None \<Rightarrow> (([line], []), Inl (AttributeError ''X''))
              | Some x \<Rightarrow>
                 if length (Pt_PV a) \<noteq> 24 \<or> length (Lt_ref a) \<noteq> 24
                 then (([line], []), Inl ValueError)
                 else if \<not> can_write (ds \<union> {''src'', ''src/scenario-results''})
                             (plot_file a ''-AllDecisionVariables.png'')
                 then (([line], []), Inl FileNotFoundError)
                 else if length (pt a) \<noteq> 24
                 then (([line], [plot_file a ''-AllDecisionVariables.png'']), Inl ValueError)
                 else if \<not> can_write (ds \<union> {''src'', ''src/scenario-results''})
                             (plot_file a ''-EnergyPriceVsGrid.png'')
                 then (([line], [plot_file a ''-AllDecisionVariables.png'']), Inl FileNotFoundError)
                 else
                   (([line],
                     [plot_file a ''-AllDecisionVariables.png'', plot_file a ''-EnergyPriceVsGrid.png'']),
                    (case objective_or_none (optimize m) of
                       Inl e \<Rightarrow> Inl e
                     | Inr obj \<Rightarrow>
                         Inr \<lparr>Lt = map (\<lambda>t. x (Var_L t)) HOURS, ut = map (\<lambda>t. x (Var_u t)) HOURS,
                              ct = map (\<lambda>t. x (Var_c t)) HOURS,
                              gt_imp = map (\<lambda>t. x (Var_g_imp t)) HOURS,
                              gt_exp = map (\<lambda>t. x (Var_g_exp t)) HOURS, objective = obj\<rparr>)))))"

section \<open>Sample inputs\<close>

definition empty_world :: world where
  "empty_world = \<lparr>dirs = {}, files = {}, stdout = []\<rparr>"

text \<open>
  A call with no production and no reference load, where using nothing is optimal at
  cost \<open>0\<close>, and the same call with a negative import cap, which no assignment satisfies.
\<close>

definition sample_args :: "string \<Rightarrow> real \<Rightarrow> args" where
  "sample_args name cap =
     \<lparr>scenario = name, Lmin_t = 0, Lmax_t = 3, Pt_PV = replicate 24 0, pt = replicate 24 1,
      Lt_ref = replicate 24 0, max_import_kW = cap, max_export_kW = 500, tau_imp = 1 / 2,
      tau_exp = 2 / 5, alpha = None, model_prefix = Some ''1b''\<rparr>"

definition sample_scenario :: "string \<Rightarrow> real \<Rightarrow> scenario_entry" where
  "sample_scenario name cap =
     \<lparr>key_scenario = Some name, key_energy_price_DKK_per_kWh = Some (replicate 24 1),
      key_max_import_kW = Some cap, key_max_export_kW = Some 500,
      key_import_tariff_DKK_kWh = Some (1 / 2), key_export_tariff_DKK_kWh = Some (2 / 5)\<rparr>"

definition sample_inputs :: "real list \<Rightarrow> scenario_entry list \<Rightarrow> inputs" where
  "sample_inputs pv scs =
     \<lparr>appl_params = \<lparr>key_load = Some [\<lparr>key_max_load_kWh_per_hour = Some 3\<rparr>]\<rparr>,
      der_production = [\<lparr>key_hourly_profile_ratio = Some pv\<rparr>],
      usage_preference =
        [\<lparr>key_load_preferences = Some [\<lparr>key_hourly_profile_ratio = Some (replicate 24 0)\<rparr>]\<rparr>],
      scenarios = scs\<rparr>"

text \<open>
  A stand-in for the library on the sample calls: a model with a variable whose upper
  bound lies under its lower bound is infeasible and has no solution; for the others it
  reports the all-zero assignment as optimal.
\<close>

fun crossed :: "bound \<Rightarrow> bound \<Rightarrow> bool" where
  "crossed (Fin l) (Fin h) = (h < l)"
| "crossed lo hi = False"

definition empty_range :: "var_decl \<Rightarrow> bool" where
  "empty_range d = crossed (lb d) (ub d)"

definition sample_solver :: solver where
  "sample_solver m =
     (if list_ex empty_range (vars m)
      then \<lparr>status = INFEASIBLE, X = None, ObjVal = None\<rparr>
      else \<lparr>status = OPTIMAL, X = Some (\<lambda>v. 0), ObjVal = Some 0\<rparr>)"

text \<open>A solver that stops at its time limit (status code 9) holding a solution.\<close>

definition time_limit_solver :: solver where
  "time_limit_solver m = \<lparr>status = OTHER 9, X = Some (\<lambda>v. 1), ObjVal = Some 7\<rparr>"

section \<open>Proofs\<close>

subsection \<open>The model that is built\<close>

lemma hour_constraints_eq:
  "hour_constraints a t m =
     (if profiles_cover a t then Inr (m\<lparr>constrs := constrs m @ hour_block a t\<rparr>) else Inl IndexError)"
  by (simp add: hour_constraints_def profiles_cover_def and_then_def subscript_def addConstr_def
      hour_block_def Let_def)

lemma for_hours_eq:
  "for_hours (hour_constraints a) ts m =
     (if list_all (profiles_cover a) ts
      then Inr (m\<lparr>constrs := constrs m @ concat (map (hour_block a) ts)\<rparr>)
      else Inl IndexError)"
  by (induction ts arbitrary: m) (simp_all add: hour_constraints_eq and_then_def)

lemma addVars_eq:
  "addVars family lo hi ts m =
     m\<lparr>vars := vars m @ map (\<lambda>t. \<lparr>dvar = family t, lb = lo, ub = hi, dvtype = CONTINUOUS\<rparr>) ts\<rparr>"
  by (induction ts arbitrary: m) (simp_all add: addVar_def)

lemma declare_variables_eq:
  "declare_variables a m = m\<lparr>vars := vars m @ all_decls a\<rparr>"
  by (simp add: declare_variables_def addVars_eq all_decls_def family_decls_def Let_def)

lemma list_all_cover_HOURS: "list_all (profiles_cover a) HOURS = long_enough a"
proof -
  have "list_all (profiles_cover a) HOURS = (\<forall>t<24. profiles_cover a t)"
    by (auto simp: HOURS_def list_all_iff)
  also have "\<dots> = long_enough a"
  proof
    assume "\<forall>t<24. profiles_cover a t"
    then have "profiles_cover a 23" by simp
    then show "long_enough a"
      by (simp add: profiles_cover_def long_enough_def)
  next
    assume "long_enough a"
    then show "\<forall>t<24. profiles_cover a t"
      by (simp add: profiles_cover_def long_enough_def)
  qed
  finally show ?thesis .
qed

lemma build_model_eq:
  "build_model a =
     (if long_enough a
      then Inr \<lparr>vars = all_decls a, constrs = concat (map (hour_block a) HOURS),
                objective_expr = objective_of a, model_sense = MINIMIZE\<rparr>
      else Inl IndexError)"
  by (simp add: build_model_def for_hours_eq declare_variables_eq list_all_cover_HOURS
      and_then_def setObjective_def new_model_def)

lemma build_model_InrD:
  assumes "build_model a = Inr m"
  shows "long_enough a"
    and "vars m = all_decls a"
    and "constrs m = concat (map (hour_block a) HOURS)"
    and "objective_expr m = objective_of a"
    and "model_sense m = MINIMIZE"
  using assms by (auto simp: build_model_eq split: if_splits)

lemma profiles_24_long_enough: "profiles_24 a \<Longrightarrow> long_enough a"
  by (simp add: profiles_24_def long_enough_def)

subsection \<open>The effects of a run\<close>

lemma io_bind_lift_Inl: "io_bind (io_lift (Inl e)) f w = (w, Inl e)"
  by (simp add: io_bind_def io_lift_def)

lemma io_bind_lift_Inr: "io_bind (io_lift (Inr v)) f w = f v w"
  by (simp add: io_bind_def io_lift_def)

lemma io_bind_print: "io_bind (print l) f w = f () (w\<lparr>stdout := stdout w @ [l]\<rparr>)"
  by (simp add: io_bind_def print_def)

lemma io_bind_makedirs:
  "io_bind (makedirs n) f w = f () (w\<lparr>dirs := dirs w \<union> set (dir_chain [] n)\<rparr>)"
  by (simp add: io_bind_def makedirs_def)

lemma io_bind_savefig:
  "io_bind (savefig p) f w =
     (if can_write (dirs w) p then f () (w\<lparr>files := insert p (files w)\<rparr>)
      else (w, Inl FileNotFoundError))"
  by (simp add: io_bind_def savefig_def)

lemma io_bind_return: "io_bind (io_return v) f w = f v w"
  by (simp add: io_bind_def io_return_def)

lemmas io_simps = io_bind_lift_Inl io_bind_lift_Inr io_bind_print io_bind_makedirs
  io_bind_savefig io_bind_return

lemma results_chain: "set (dir_chain [] results_folder) = {''src'', ''src/scenario-results''}"
  by (simp add: results_folder_def)

lemma length_HOURS: "length HOURS = 24"
  by (simp add: HOURS_def)

lemma values_of_eq:
  "values_of s family =
     (case X s of None \<Rightarrow> Inl (AttributeError ''X'') | Some x \<Rightarrow> Inr (map (\<lambda>t. x (family t)) HOURS))"
  by (simp add: values_of_def attribute_def and_then_def split: option.splits)

lemma run_model_1b_eq:
  "run_model_1b optimize a w =
     (case build_model a of
        Inl e \<Rightarrow> (world_after [] [] w, Inl e)
      | Inr m \<Rightarrow>
         (case report_status (scenario a) (optimize m) of
            Inl e \<Rightarrow> (world_after [] [] w, Inl e)
          | Inr line \<Rightarrow>
             (case X (optimize m) of
                None \<Rightarrow> (world_after [line] [] w, Inl (AttributeError ''X''))
              | Some x \<Rightarrow>
                 if length (Pt_PV a) \<noteq> 24 \<or> length (Lt_ref a) \<noteq> 24
                 then (world_after [line] [] w, Inl ValueError)
                 else if \<not> can_write (dirs w \<union> {''src'', ''src/scenario-results''})
                             (plot_file a ''-AllDecisionVariables.png'')
                 then (world_after [line] [] w, Inl FileNotFoundError)
                 else if length (pt a) \<noteq> 24
                 then (world_after [line] [plot_file a ''-AllDecisionVariables.png''] w, Inl ValueError)
                 else if \<not> can_write (dirs w \<union> {''src'', ''src/scenario-results''})
                             (plot_file a ''-EnergyPriceVsGrid.png'')
                 then (world_after [line] [plot_file a ''-AllDecisionVariables.png''] w,
                       Inl FileNotFoundError)
                 else
                   (case objective_or_none (optimize m) of
                      Inl e \<Rightarrow>
                        (world_after [line]
                           [plot_file a ''-AllDecisionVariables.png'', plot_file a ''-EnergyPriceVsGrid.png''] w,
                         Inl e)
                    | Inr obj \<Rightarrow>
                        (world_after [line]
                           [plot_file a ''-AllDecisionVariables.png'', plot_file a ''-EnergyPriceVsGrid.png''] w,
                         Inr \<lparr>Lt = map (\<lambda>t. x (Var_L t)) HOURS, ut = map (\<lambda>t. x (Var_u t)) HOURS,
                              ct = map (\<lambda>t. x (Var_c t)) HOURS,
                              gt_imp = map (\<lambda>t. x (Var_g_imp t)) HOURS,
                              gt_exp = map (\<lambda>t. x (Var_g_exp t)) HOURS, objective = obj\<rparr>)))))"
  by (simp add: run_model_1b_def io_simps results_chain values_of_eq plot_def length_HOURS
      world_after_def Let_def io_return_def insert_commute Un_commute
      split: sum.splits option.splits)

subsection \<open>Where the plot files go\<close>

lemma dropWhile_all: "(\<And>y. y \<in> set ys \<Longrightarrow> P y) \<Longrightarrow> dropWhile P (ys @ zs) = dropWhile P zs"
  by (induction ys) simp_all

lemma dirname_join:
  assumes "CHR ''/'' \<notin> set name" and "d \<noteq> []" and "last d \<noteq> CHR ''/''"
  shows "dirname (d @ ''/'' @ name) = d"
proof -
  have "dropWhile (\<lambda>ch. \<not> is_slash ch) (rev name @ CHR ''/'' # rev d) =
      dropWhile (\<lambda>ch. \<not> is_slash ch) (CHR ''/'' # rev d)"
    using assms(1) by (intro dropWhile_all) (auto simp: is_slash_def)
  then have head: "rev (dropWhile (\<lambda>ch. \<not> is_slash ch) (rev (d @ ''/'' @ name))) = d @ ''/''"
    by (simp add: is_slash_def)
  have l: "last d \<in> set d"
    using assms(2) by simp
  have not_all: "\<not> list_all is_slash (d @ ''/'')"
    using l assms(3) by (auto simp: list_all_iff is_slash_def)
  have "rev (butlast d @ [last d]) = last d # rev (butlast d)"
    by simp
  then have r: "rev d = last d # rev (butlast d)"
    using assms(2) by simp
  have "dropWhile is_slash (last d # rev (butlast d)) = last d # rev (butlast d)"
    using assms(3) by (simp add: is_slash_def)
  then have "dropWhile is_slash (rev d) = rev d"
    by (simp only: r)
  then have "rev (dropWhile is_slash (rev (d @ ''/''))) = d"
    by (simp add: is_slash_def)
  with head not_all show ?thesis
    by (simp add: dirname_def Let_def)
qed

lemma plot_file_dirname:
  assumes "plain_call a" and "CHR ''/'' \<notin> set suffix"
  shows "dirname (plot_file a suffix) = ''src/scenario-results''"
proof -
  let ?name = "model_prefix_of a @ ''-scenario-'' @ scenario a @ suffix"
  have n: "CHR ''/'' \<notin> set ?name"
    using assms by (auto simp: plain_call_def)
  have "?name \<noteq> []" by simp
  then have "hd ?name \<in> set ?name" by (rule hd_in_set)
  with n have "hd ?name \<noteq> CHR ''/''" by metis
  then have "plot_file a suffix = ''src/scenario-results'' @ ''/'' @ ?name"
    by (simp add: plot_file_def path_join_def results_folder_def)
  moreover have "dirname (''src/scenario-results'' @ ''/'' @ ?name) = ''src/scenario-results''"
    using n by (intro dirname_join) simp_all
  ultimately show ?thesis by simp
qed

lemma plain_can_write:
  assumes "plain_call a"
  shows "can_write (insert ''src'' (insert ''src/scenario-results'' ds))
           (plot_file a ''-AllDecisionVariables.png'')"
    and "can_write (insert ''src'' (insert ''src/scenario-results'' ds))
           (plot_file a ''-EnergyPriceVsGrid.png'')"
  by (simp_all add: can_write_def plot_file_dirname [OF assms])

subsection \<open>The sample calls\<close>

lemma sample_long_enough: "long_enough (sample_args n cap)"
  by (simp add: long_enough_def sample_args_def)

lemma sample_profiles_24: "profiles_24 (sample_args n cap)"
  by (simp add: profiles_24_def sample_args_def)

lemma list_ex_family: "list_ex empty_range (family_decls family lo hi) = crossed lo hi"
proof -
  have "\<exists>t::nat. t < 24" by (rule exI [of _ 0]) simp
  then show ?thesis
    by (auto simp: family_decls_def list_ex_iff HOURS_def empty_range_def)
qed

lemma sample_solver_eq:
  "build_model (sample_args n cap) = Inr m \<Longrightarrow>
   sample_solver m =
     (if cap < 0 then \<lparr>status = INFEASIBLE, X = None, ObjVal = None\<rparr>
      else \<lparr>status = OPTIMAL, X = Some (\<lambda>v. 0), ObjVal = Some 0\<rparr>)"
  by (auto simp: sample_solver_def build_model_InrD(2) all_decls_def list_ex_family sample_args_def)

lemma sample_call_args:
  "call_args (0, 3, replicate 24 0, replicate 24 0) (sample_scenario n cap) = Inr (sample_args n cap)"
  by (simp add: call_args_def sample_scenario_def sample_args_def subscript_key_def and_then_def)

lemma sample_load_phase:
  "load_phase (sample_inputs pv scs) = Inr (0, 3, pv, replicate 24 0)"
  by (simp add: load_phase_def sample_inputs_def subscript_key_def subscript_def and_then_def)

subsection \<open>Reading the inputs\<close>

lemma and_then_Inr: "(and_then r f = Inr v) = (\<exists>u. r = Inr u \<and> f u = Inr v)"
  by (cases r) (simp_all add: and_then_def)

lemma subscript_key_Inr: "(subscript_key k field = Inr v) = (field = Some v)"
  by (cases field) (simp_all add: subscript_key_def)

lemma call_args_fields:
  assumes "call_args loaded sc = Inr a"
  shows "alpha a = None" and "model_prefix a = Some ''1b''" and "Lmin_t a = fst loaded"
    and "key_scenario sc = Some (scenario a)"
  using assms
  by (auto simp: call_args_def and_then_Inr subscript_key_Inr split: prod.splits)

lemma load_phase_Lmin: "load_phase inp = Inr loaded \<Longrightarrow> fst loaded = 0"
  by (auto simp: load_phase_def and_then_Inr)


section \<open>The model handed to the solver\<close>

lemma hour_block_names:
  "map cname (hour_block a t) = [PV_allocation t, Energy_balance t, Hourly_cost t, Discomfort t]"
  by (simp add: hour_block_def)

lemma hour_block_holds: "k \<in> set (hour_block a t) \<Longrightarrow> holds x k = spec_equation a x (cname k)"
  by (auto simp: hour_block_def)

lemma hour_block_vars: "k \<in> set (hour_block a t) \<Longrightarrow> var_hour ` constr_vars k = {cname_hour (cname k)}"
  by (auto simp: hour_block_def constr_vars_def)

text \<open>
  Claim C3. When the model of a call is built, its constraints are, hour by hour from 0
  to 23, the four named \<open>PV_allocation\<close>, \<open>Energy_balance\<close>, \<open>Hourly_cost\<close> and
  \<open>Discomfort\<close> of that hour and nothing else; an assignment satisfies each of them
  exactly when it satisfies the equation the specification gives under that name; and
  every constraint mentions variables of its own hour only, so that none couples two
  hours.
\<close>

theorem C3_hourly_constraints:
  assumes "build_model a = Inr m"
  shows "map cname (constrs m) =
           concat (map (\<lambda>t. [PV_allocation t, Energy_balance t, Hourly_cost t, Discomfort t]) [0..<24])
         \<and> (\<forall>k \<in> set (constrs m). \<forall>x. holds x k = spec_equation a x (cname k))
         \<and> (\<forall>k \<in> set (constrs m). var_hour ` constr_vars k = {cname_hour (cname k)})"
proof -
  have c: "constrs m = concat (map (hour_block a) HOURS)"
    using assms by (rule build_model_InrD(3))
  have "map cname (constrs m) = concat (map (\<lambda>t. map cname (hour_block a t)) HOURS)"
    by (simp add: c map_concat comp_def)
  then have names: "map cname (constrs m) =
      concat (map (\<lambda>t. [PV_allocation t, Energy_balance t, Hourly_cost t, Discomfort t]) [0..<24])"
    by (simp add: hour_block_names HOURS_def)
  have sem: "\<forall>k \<in> set (constrs m). \<forall>x. holds x k = spec_equation a x (cname k)"
    using hour_block_holds by (auto simp: c)
  have own: "\<forall>k \<in> set (constrs m). var_hour ` constr_vars k = {cname_hour (cname k)}"
    using hour_block_vars by (auto simp: c)
  from names sem own show ?thesis by blast
qed

theorem C3_hourly_constraints_witness:
  "\<exists>m. build_model (sample_args ''base'' 1000) = Inr m
     \<and> length (constrs m) = 96
     \<and> map cname (take 4 (constrs m)) = [PV_allocation 0, Energy_balance 0, Hourly_cost 0, Discomfort 0]"
proof -
  obtain m where m: "build_model (sample_args ''base'' 1000) = Inr m"
    by (simp add: build_model_eq sample_long_enough)
  have n: "map cname (constrs m) =
      concat (map (\<lambda>t. [PV_allocation t, Energy_balance t, Hourly_cost t, Discomfort t]) [0..<24])"
    using C3_hourly_constraints [OF m] by blast
  have "length (map cname (constrs m)) = 96"
    unfolding n by (simp add: length_concat comp_def sum_list_triv)
  moreover have "take 4 (map cname (constrs m)) = [PV_allocation 0, Energy_balance 0, Hourly_cost 0, Discomfort 0]"
    unfolding n by (simp add: upt_conv_Cons)
  ultimately show ?thesis using m by (auto simp: take_map)
qed

lemma eval_objective_of:
  "eval x (objective_of a) = (\<Sum>t<24. alpha_of a * x (Var_D t) + x (Var_HC t))"
proof -
  have "eval x (objective_of a) = sum_list (map (\<lambda>t. alpha_of a * x (Var_D t) + x (Var_HC t)) [0..<24])"
    by (simp add: objective_of_def HOURS_def comp_def)
  also have "\<dots> = (\<Sum>t<24. alpha_of a * x (Var_D t) + x (Var_HC t))"
    by (simp add: interv_sum_list_conv_sum_set_nat atLeast0LessThan)
  finally show ?thesis .
qed




lemma family_in_bounds:
  "d \<in> set (family_decls family lo hi) \<Longrightarrow>
     (\<exists>t<24. dvar d = family t) \<and> lb d = lo \<and> ub d = hi \<and> dvtype d = CONTINUOUS"
  by (auto simp: family_decls_def HOURS_def)

lemma all_decls_vars:
  "map dvar (all_decls a) =
     concat (map (\<lambda>family. map family [0..<24])
       [Var_L, Var_u, Var_c, Var_g_imp, Var_g_exp, Var_HC, Var_D])"
  by (simp add: all_decls_def family_decls_def HOURS_def comp_def)

lemma all_decls_in_bounds:
  "d \<in> set (all_decls a) \<Longrightarrow> in_bounds x d = spec_range a x (dvar d)"
  by (auto simp: all_decls_def in_bounds_def dest!: family_in_bounds)

lemma all_decls_HC:
  "d \<in> set (all_decls a) \<Longrightarrow> dvar d = Var_HC t \<Longrightarrow> lb d = MinusInf \<and> ub d = PlusInf"
  by (auto simp: all_decls_def dest!: family_in_bounds)

lemma sample_zero_in_range: "0 \<le> cap \<Longrightarrow> spec_range (sample_args n cap) (\<lambda>v. 0) v"
  by (cases v) (simp_all add: sample_args_def)

text \<open>
  Claim C5. The model that is built declares each of the seven variables of each of the
  24 hours once, and an assignment respects the declared bounds of a variable exactly
  when it lies in the range the specification gives: \<open>L_t\<close> between \<open>Lmin_t\<close> and
  \<open>Lmax_t\<close>, \<open>g_imp_t\<close> between 0 and \<open>max_import_kW\<close>, \<open>g_exp_t\<close> between 0 and
  \<open>max_export_kW\<close>, \<open>u_t\<close>, \<open>c_t\<close> and \<open>D_t\<close> at least 0, and \<open>HC_t\<close> free, its
  declared bounds being minus and plus infinity. In a call made by the main program
  \<open>Lmin_t\<close> is 0.
\<close>

theorem C5_variable_bounds:
  assumes "build_model a = Inr m"
  shows "map dvar (vars m) =
           concat (map (\<lambda>family. map family [0..<24])
             [Var_L, Var_u, Var_c, Var_g_imp, Var_g_exp, Var_HC, Var_D])
         \<and> (\<forall>d \<in> set (vars m). \<forall>x. in_bounds x d = spec_range a x (dvar d))
         \<and> (\<forall>d \<in> set (vars m). \<forall>t. dvar d = Var_HC t \<longrightarrow> lb d = MinusInf \<and> ub d = PlusInf)
         \<and> (\<forall>inp loaded sc. load_phase inp = Inr loaded \<longrightarrow> call_args loaded sc = Inr a
               \<longrightarrow> Lmin_t a = 0)"
proof -
  have v: "vars m = all_decls a"
    using assms by (rule build_model_InrD(2))
  have 1: "map dvar (vars m) =
           concat (map (\<lambda>family. map family [0..<24])
             [Var_L, Var_u, Var_c, Var_g_imp, Var_g_exp, Var_HC, Var_D])"
    unfolding v by (rule all_decls_vars)
  have 2: "\<forall>d \<in> set (vars m). \<forall>x. in_bounds x d = spec_range a x (dvar d)"
    unfolding v using all_decls_in_bounds by blast
  have 3: "\<forall>d \<in> set (vars m). \<forall>t. dvar d = Var_HC t \<longrightarrow> lb d = MinusInf \<and> ub d = PlusInf"
    unfolding v using all_decls_HC by blast
  have 4: "\<forall>inp loaded sc. load_phase inp = Inr loaded \<longrightarrow> call_args loaded sc = Inr a \<longrightarrow> Lmin_t a = 0"
    by (auto simp: call_args_fields(3) load_phase_Lmin)
  from 1 2 3 4 show ?thesis by blast
qed


theorem C5_variable_bounds_witness:
  "\<exists>m. build_model (sample_args ''base'' 1000) = Inr m
     \<and> length (vars m) = 168
     \<and> list_all (in_bounds (\<lambda>v. 0)) (vars m)
     \<and> Lmin_t (sample_args ''base'' 1000) = 0"
proof -
  obtain m where m: "build_model (sample_args ''base'' 1000) = Inr m"
    by (simp add: build_model_eq sample_long_enough)
  note c = C5_variable_bounds [OF m]
  have "length (map dvar (vars m)) = 168"
    unfolding c [THEN conjunct1] by simp
  then have 1: "length (vars m) = 168" by simp
  have "\<forall>d \<in> set (vars m). in_bounds (\<lambda>v. 0) d"
    using c [THEN conjunct2, THEN conjunct1] by (simp add: sample_zero_in_range)
  then have 2: "list_all (in_bounds (\<lambda>v. 0)) (vars m)"
    by (simp add: list_all_iff)
  have 3: "Lmin_t (sample_args ''base'' 1000) = 0"
    using c [THEN conjunct2, THEN conjunct2, THEN conjunct2]
      sample_load_phase [of "replicate 24 0" "[]"] sample_call_args [of "''base''" 1000]
    by blast
  from m 1 2 3 show ?thesis by blast
qed

section \<open>The sample calls and the stand-in solver\<close>

text \<open>
  On a sample call with a cap that is not negative the all-zero assignment respects every
  bound and every constraint, and no assignment that does so has a smaller objective:
  the answer of the stand-in solver is a true optimum there.
\<close>

lemma feasible_range:
  assumes "build_model a = Inr m" and "list_all (in_bounds x) (vars m)" and "t < 24"
    and "family \<in> {Var_L, Var_u, Var_c, Var_g_imp, Var_g_exp, Var_HC, Var_D}"
  shows "spec_range a x (family t)"
proof -
  have "family t \<in> set (map dvar (all_decls a))"
    using assms(3,4) unfolding all_decls_vars by auto
  then obtain d where d: "d \<in> set (all_decls a)" and v: "dvar d = family t"
    by auto
  have "in_bounds x d"
    using assms(2) d by (simp add: build_model_InrD(2) [OF assms(1)] list_all_iff)
  then show ?thesis
    using all_decls_in_bounds [OF d, of x] v by simp
qed

lemma feasible_equation:
  assumes "build_model a = Inr m" and "list_all (holds x) (constrs m)" and "t < 24"
    and "k \<in> set (hour_block a t)"
  shows "spec_equation a x (cname k)"
proof -
  have "k \<in> set (constrs m)"
    using assms(3,4) by (auto simp: build_model_InrD(3) [OF assms(1)] HOURS_def)
  then have "holds x k"
    using assms(2) by (simp add: list_all_iff)
  then show ?thesis
    using hour_block_holds [OF assms(4), of x] by simp
qed

lemma sample_zero_feasible:
  assumes "build_model (sample_args n cap) = Inr m" and "0 \<le> cap"
  shows "list_all (in_bounds (\<lambda>v. 0)) (vars m) \<and> list_all (holds (\<lambda>v. 0)) (constrs m)
         \<and> eval (\<lambda>v. 0) (objective_expr m) = 0"
proof -
  have 1: "list_all (in_bounds (\<lambda>v. 0)) (vars m)"
    using assms(2)
    by (simp add: build_model_InrD(2) [OF assms(1)] list_all_iff all_decls_in_bounds
        sample_zero_in_range)
  have "holds (\<lambda>v. 0) k" if "k \<in> set (hour_block (sample_args n cap) t)" and "t < 24" for k t
    using that by (auto simp: hour_block_def sample_args_def)
  then have 2: "list_all (holds (\<lambda>v. 0)) (constrs m)"
    by (auto simp: build_model_InrD(3) [OF assms(1)] list_all_iff HOURS_def)
  have 3: "eval (\<lambda>v. 0) (objective_expr m) = 0"
    by (simp add: build_model_InrD(4) [OF assms(1)] eval_objective_of)
  from 1 2 3 show ?thesis by blast
qed

lemma sample_zero_optimal:
  assumes "build_model (sample_args n cap) = Inr m"
    and "list_all (in_bounds x) (vars m)" and "list_all (holds x) (constrs m)"
  shows "0 \<le> eval x (objective_expr m)"
proof -
  let ?a = "sample_args n cap"
  have nonneg: "0 \<le> alpha_of ?a * x (Var_D t) + x (Var_HC t)" if t: "t < 24" for t
  proof -
    have r: "spec_range ?a x (family t)"
      if "family \<in> {Var_L, Var_u, Var_c, Var_g_imp, Var_g_exp, Var_HC, Var_D}" for family
      using assms(1,2) t that by (rule feasible_range)
    have e: "spec_equation ?a x (cname k)" if "k \<in> set (hour_block ?a t)" for k
      using assms(1,3) t that by (rule feasible_equation)
    have L: "0 \<le> x (Var_L t)" using r [of Var_L] by (simp add: sample_args_def)
    have u: "0 \<le> x (Var_u t)" using r [of Var_u] by simp
    have c: "0 \<le> x (Var_c t)" using r [of Var_c] by simp
    have g: "0 \<le> x (Var_g_exp t)" using r [of Var_g_exp] by simp
    have D: "0 \<le> x (Var_D t)" using r [of Var_D] by simp
    have pv: "x (Var_u t) + x (Var_c t) = 0"
      using e [of "hour_block ?a t ! 0"] t by (simp add: hour_block_def sample_args_def)
    have bal: "x (Var_u t) + x (Var_g_imp t) = x (Var_L t) + x (Var_g_exp t)"
      using e [of "hour_block ?a t ! 1"] by (simp add: hour_block_def)
    have cost: "(1 + 1 / 2) * x (Var_g_imp t) - (1 - 2 / 5) * x (Var_g_exp t) = x (Var_HC t)"
      using e [of "hour_block ?a t ! 2"] t by (simp add: hour_block_def sample_args_def)
    have "x (Var_u t) = 0" using pv u c by linarith
    with bal have "x (Var_g_imp t) = x (Var_L t) + x (Var_g_exp t)" by simp
    with cost L g have "0 \<le> x (Var_HC t)" by (simp add: field_simps)
    moreover have "alpha_of ?a = 10" by (simp add: alpha_of_def sample_args_def)
    ultimately show ?thesis using D by simp
  qed
  have "eval x (objective_expr m) = (\<Sum>t<24. alpha_of ?a * x (Var_D t) + x (Var_HC t))"
    by (simp add: build_model_InrD(4) [OF assms(1)] eval_objective_of)
  also have "0 \<le> \<dots>"
    by (rule sum_nonneg) (simp add: nonneg)
  finally show ?thesis .
qed

section \<open>What a run returns and what it leaves behind\<close>

lemma run_model_1b_outcome:
  "run_model_1b optimize a w =
     (world_after (fst (fst (outcome_of optimize a (dirs w))))
        (snd (fst (outcome_of optimize a (dirs w)))) w,
      snd (outcome_of optimize a (dirs w)))"
  by (simp add: run_model_1b_eq outcome_of_def split: sum.splits option.splits)



lemma objective_or_none_Inr:
  "objective_or_none s = Inr obj \<Longrightarrow>
     obj = (if status s = OPTIMAL then ObjVal s else None)
     \<and> (status s = OPTIMAL \<longrightarrow> ObjVal s \<noteq> None)"
  by (cases "ObjVal s")
    (auto simp: objective_or_none_def attribute_def and_then_def split: if_splits)

lemma outcome_returns:
  assumes "snd (outcome_of optimize a ds) = Inr r"
  shows "\<exists>m x. build_model a = Inr m \<and> X (optimize m) = Some x
     \<and> r = \<lparr>Lt = map (\<lambda>t. x (Var_L t)) HOURS, ut = map (\<lambda>t. x (Var_u t)) HOURS,
           ct = map (\<lambda>t. x (Var_c t)) HOURS, gt_imp = map (\<lambda>t. x (Var_g_imp t)) HOURS,
           gt_exp = map (\<lambda>t. x (Var_g_exp t)) HOURS,
           objective = (if status (optimize m) = OPTIMAL then ObjVal (optimize m) else None)\<rparr>
     \<and> (status (optimize m) = OPTIMAL \<longrightarrow> ObjVal (optimize m) \<noteq> None)"
proof (cases "build_model a")
  case (Inl e)
  with assms show ?thesis by (simp add: outcome_of_def)
next
  case m: (Inr m)
  show ?thesis
  proof (cases "report_status (scenario a) (optimize m)")
    case (Inl e)
    with m assms show ?thesis by (simp add: outcome_of_def)
  next
    case line: (Inr line)
    show ?thesis
    proof (cases "X (optimize m)")
      case None
      with m line assms show ?thesis by (simp add: outcome_of_def)
    next
      case x: (Some x)
      show ?thesis
      proof (cases "objective_or_none (optimize m)")
        case (Inl e)
        with m line x assms show ?thesis
          by (simp add: outcome_of_def split: if_splits)
      next
        case (Inr obj)
        then have o: "obj = (if status (optimize m) = OPTIMAL then ObjVal (optimize m) else None)"
          and v: "status (optimize m) = OPTIMAL \<longrightarrow> ObjVal (optimize m) \<noteq> None"
          by (simp_all add: objective_or_none_Inr)
        from m line x Inr assms
        have "r = \<lparr>Lt = map (\<lambda>t. x (Var_L t)) HOURS, ut = map (\<lambda>t. x (Var_u t)) HOURS,
           ct = map (\<lambda>t. x (Var_c t)) HOURS, gt_imp = map (\<lambda>t. x (Var_g_imp t)) HOURS,
           gt_exp = map (\<lambda>t. x (Var_g_exp t)) HOURS, objective = obj\<rparr>"
          by (simp add: outcome_of_def split: if_splits)
        with m x o v show ?thesis by blast
      qed
    qed
  qed
qed

lemma run_optimal:
  assumes "build_model a = Inr m" and "status (optimize m) = OPTIMAL"
    and "X (optimize m) = Some x" and "ObjVal (optimize m) = Some v" and "profiles_24 a"
    and "plain_call a"
  shows "run_model_1b optimize a w =
     (world_after [Successful (scenario a) v]
        [plot_file a ''-AllDecisionVariables.png'', plot_file a ''-EnergyPriceVsGrid.png''] w,
      Inr \<lparr>Lt = map (\<lambda>t. x (Var_L t)) HOURS, ut = map (\<lambda>t. x (Var_u t)) HOURS,
           ct = map (\<lambda>t. x (Var_c t)) HOURS, gt_imp = map (\<lambda>t. x (Var_g_imp t)) HOURS,
           gt_exp = map (\<lambda>t. x (Var_g_exp t)) HOURS, objective = Some v\<rparr>)"
  using assms
  by (simp add: run_model_1b_eq report_status_def objective_or_none_def attribute_def
      and_then_def profiles_24_def plain_can_write)

lemma run_without_solution:
  assumes "build_model a = Inr m" and "status (optimize m) = INFEASIBLE"
    and "X (optimize m) = None"
  shows "run_model_1b optimize a w =
     (world_after [Is_infeasible (scenario a)] [] w, Inl (AttributeError ''X''))"
  using assms by (simp add: run_model_1b_eq report_status_def)

lemma run_returns:
  assumes "run_model_1b optimize a w = (w', Inr r)"
  obtains m x where "build_model a = Inr m" and "X (optimize m) = Some x"
    and "r = \<lparr>Lt = map (\<lambda>t. x (Var_L t)) HOURS, ut = map (\<lambda>t. x (Var_u t)) HOURS,
           ct = map (\<lambda>t. x (Var_c t)) HOURS, gt_imp = map (\<lambda>t. x (Var_g_imp t)) HOURS,
           gt_exp = map (\<lambda>t. x (Var_g_exp t)) HOURS,
           objective = (if status (optimize m) = OPTIMAL then ObjVal (optimize m) else None)\<rparr>"
    and "status (optimize m) = OPTIMAL \<Longrightarrow> ObjVal (optimize m) \<noteq> None"
proof -
  have "snd (outcome_of optimize a (dirs w)) = Inr r"
    using assms by (simp add: run_model_1b_outcome)
  then show ?thesis
    using outcome_returns that by blast
qed

text \<open>
  Claim C6. Whenever \<open>run_model_1b\<close> returns a result, its field \<open>objective\<close> is
  \<open>None\<close> exactly when the status of the solve is not \<open>OPTIMAL\<close>; when the status is
  \<open>OPTIMAL\<close> the field is the objective value the solver reports. The field is there
  in every result: it is a field of the record.
\<close>

theorem C6_objective_field:
  assumes "run_model_1b optimize a w = (w', Inr r)"
  shows "\<exists>m. build_model a = Inr m
           \<and> (objective r = None) = (status (optimize m) \<noteq> OPTIMAL)
           \<and> (status (optimize m) = OPTIMAL \<longrightarrow> objective r = ObjVal (optimize m))"
proof -
  from assms obtain m x where m: "build_model a = Inr m"
    and r: "objective r = (if status (optimize m) = OPTIMAL then ObjVal (optimize m) else None)"
    and v: "status (optimize m) = OPTIMAL \<Longrightarrow> ObjVal (optimize m) \<noteq> None"
    by (rule run_returns) simp
  from r v have "(objective r = None) = (status (optimize m) \<noteq> OPTIMAL)"
    by auto
  with m r show ?thesis by auto
qed

text \<open>
  Claim C9. Whenever \<open>run_model_1b\<close> returns a result, the solver held an assignment
  \<open>x\<close> for the model that was built, and each of the lists \<open>Lt\<close>, \<open>ut\<close>, \<open>ct\<close>,
  \<open>gt_imp\<close> and \<open>gt_exp\<close> of the result holds the values \<open>x\<close> gives to the variables
  of its family at the hours 0 to 23, in this order: 24 entries each.
\<close>

theorem C9_trajectories:
  assumes "run_model_1b optimize a w = (w', Inr r)"
  shows "\<exists>m x. build_model a = Inr m \<and> X (optimize m) = Some x
           \<and> Lt r = map (\<lambda>t. x (Var_L t)) [0..<24]
           \<and> ut r = map (\<lambda>t. x (Var_u t)) [0..<24]
           \<and> ct r = map (\<lambda>t. x (Var_c t)) [0..<24]
           \<and> gt_imp r = map (\<lambda>t. x (Var_g_imp t)) [0..<24]
           \<and> gt_exp r = map (\<lambda>t. x (Var_g_exp t)) [0..<24]
           \<and> length (Lt r) = 24 \<and> length (ut r) = 24 \<and> length (ct r) = 24
           \<and> length (gt_imp r) = 24 \<and> length (gt_exp r) = 24"
proof -
  from assms obtain m x where "build_model a = Inr m" and "X (optimize m) = Some x"
    and "r = \<lparr>Lt = map (\<lambda>t. x (Var_L t)) HOURS, ut = map (\<lambda>t. x (Var_u t)) HOURS,
           ct = map (\<lambda>t. x (Var_c t)) HOURS, gt_imp = map (\<lambda>t. x (Var_g_imp t)) HOURS,
           gt_exp = map (\<lambda>t. x (Var_g_exp t)) HOURS,
           objective = (if status (optimize m) = OPTIMAL then ObjVal (optimize m) else None)\<rparr>"
    by (rule run_returns)
  then show ?thesis
    by (intro exI [of _ m] exI [of _ x]) (simp add: HOURS_def)
qed







lemma sample_build: "\<exists>m. build_model (sample_args n cap) = Inr m"
  by (simp add: build_model_eq sample_long_enough)



lemma sample_plain: "CHR ''/'' \<notin> set n \<Longrightarrow> plain_call (sample_args n cap)"
  by (simp add: plain_call_def model_prefix_of_def sample_args_def)

lemma sample_run:
  assumes "0 \<le> cap" and "CHR ''/'' \<notin> set n"
  shows "run_model_1b sample_solver (sample_args n cap) w =
     (world_after [Successful n 0]
        [plot_file (sample_args n cap) ''-AllDecisionVariables.png'',
         plot_file (sample_args n cap) ''-EnergyPriceVsGrid.png''] w,
      Inr \<lparr>Lt = replicate 24 0, ut = replicate 24 0, ct = replicate 24 0,
           gt_imp = replicate 24 0, gt_exp = replicate 24 0, objective = Some 0\<rparr>)"
proof -
  obtain m where m: "build_model (sample_args n cap) = Inr m"
    using sample_build by blast
  have s: "sample_solver m = \<lparr>status = OPTIMAL, X = Some (\<lambda>v. 0), ObjVal = Some 0\<rparr>"
    using assms(1) by (simp add: sample_solver_eq [OF m])
  have "scenario (sample_args n cap) = n"
    by (simp add: sample_args_def)
  moreover have "map (\<lambda>t. 0::real) HOURS = replicate 24 0"
    by (simp add: HOURS_def map_replicate_const)
  ultimately show ?thesis
    using run_optimal [OF m, of sample_solver "\<lambda>v. 0" 0 w] s sample_profiles_24
      sample_plain [OF assms(2)]
    by simp
qed

lemma sample_run_infeasible:
  assumes "cap < 0"
  shows "run_model_1b sample_solver (sample_args n cap) w =
     (world_after [Is_infeasible n] [] w, Inl (AttributeError ''X''))"
proof -
  obtain m where m: "build_model (sample_args n cap) = Inr m"
    using sample_build by blast
  have s: "sample_solver m = \<lparr>status = INFEASIBLE, X = None, ObjVal = None\<rparr>"
    using assms by (simp add: sample_solver_eq [OF m])
  have "scenario (sample_args n cap) = n"
    by (simp add: sample_args_def)
  then show ?thesis
    using run_without_solution [OF m, of sample_solver w] s by simp
qed

lemma time_limit_run:
  assumes "CHR ''/'' \<notin> set n"
  shows "run_model_1b time_limit_solver (sample_args n cap) w =
     (world_after [Ended_with_status (OTHER 9)]
        [plot_file (sample_args n cap) ''-AllDecisionVariables.png'',
         plot_file (sample_args n cap) ''-EnergyPriceVsGrid.png''] w,
      Inr \<lparr>Lt = replicate 24 1, ut = replicate 24 1, ct = replicate 24 1,
           gt_imp = replicate 24 1, gt_exp = replicate 24 1, objective = None\<rparr>)"
proof -
  obtain m where m: "build_model (sample_args n cap) = Inr m"
    using sample_build by blast
  have "map (\<lambda>t. 1::real) HOURS = replicate 24 1"
    by (simp add: HOURS_def map_replicate_const)
  then show ?thesis
    using sample_profiles_24 [of n cap] sample_plain [OF assms, of cap]
    by (simp add: run_model_1b_eq m time_limit_solver_def report_status_def
        objective_or_none_def profiles_24_def plain_can_write)
qed

theorem C6_objective_field_witness:
  "(\<exists>w' r. run_model_1b sample_solver (sample_args ''base'' 1000) empty_world = (w', Inr r)
        \<and> objective r = Some 0)
   \<and> (\<exists>w' r. run_model_1b time_limit_solver (sample_args ''base'' 1000) empty_world = (w', Inr r)
        \<and> objective r = None)"
proof -
  obtain m where m: "build_model (sample_args ''base'' 1000) = Inr m"
    using sample_build by blast
  have s: "sample_solver m = \<lparr>status = OPTIMAL, X = Some (\<lambda>v. 0), ObjVal = Some 0\<rparr>"
    by (simp add: sample_solver_eq [OF m])
  obtain w1 r1 where 1: "run_model_1b sample_solver (sample_args ''base'' 1000) empty_world = (w1, Inr r1)"
    by (simp add: sample_run)
  obtain w2 r2 where 2: "run_model_1b time_limit_solver (sample_args ''base'' 1000) empty_world = (w2, Inr r2)"
    by (simp add: time_limit_run)
  from C6_objective_field [OF 1] m s have "objective r1 = Some 0"
    by auto
  moreover from C6_objective_field [OF 2] m have "objective r2 = None"
    by (auto simp: time_limit_solver_def)
  ultimately show ?thesis using 1 2 by blast
qed

theorem C9_trajectories_witness:
  "\<exists>w' r. run_model_1b sample_solver (sample_args ''base'' 1000) empty_world = (w', Inr r)
     \<and> length (Lt r) = 24 \<and> length (ut r) = 24 \<and> length (ct r) = 24
     \<and> length (gt_imp r) = 24 \<and> length (gt_exp r) = 24"
proof -
  obtain w1 r1 where 1: "run_model_1b sample_solver (sample_args ''base'' 1000) empty_world = (w1, Inr r1)"
    by (simp add: sample_run)
  from C9_trajectories [OF 1]
  have "length (Lt r1) = 24 \<and> length (ut r1) = 24 \<and> length (ct r1) = 24
     \<and> length (gt_imp r1) = 24 \<and> length (gt_exp r1) = 24"
    by blast
  with 1 show ?thesis by blast
qed

section \<open>The scenario loop and the summary\<close>

lemma io_bind_lift_Inr_fun: "io_bind (io_lift (Inr v)) f = f v"
  by (rule ext) (simp add: io_bind_lift_Inr)

lemma scenario_step_eq:
  assumes "call_args loaded sc = Inr a"
  shows "scenario_step optimize loaded sc acc w =
     (case run_model_1b optimize a (w\<lparr>stdout := stdout w @ [Running (scenario a)]\<rparr>) of
        (w', Inl e) \<Rightarrow> (w', Inl e)
      | (w', Inr result) \<Rightarrow>
          (w', Inr (acc @ [\<lparr>Scenario = scenario a, Primal_Objective = objective result\<rparr>])))"
proof -
  have k: "subscript_key ''scenario'' (key_scenario sc) = Inr (scenario a)"
    using assms by (simp add: call_args_fields(4) subscript_key_def)
  have "scenario_step optimize loaded sc acc w =
      io_bind (run_model_1b optimize a)
        (\<lambda>result. io_return (acc @ [\<lparr>Scenario = scenario a, Primal_Objective = objective result\<rparr>]))
        (w\<lparr>stdout := stdout w @ [Running (scenario a)]\<rparr>)"
    by (simp add: scenario_step_def k assms io_bind_lift_Inr_fun io_bind_lift_Inr io_bind_print)
  then show ?thesis
    by (simp add: io_bind_def io_return_def split: prod.splits sum.splits)
qed



lemma print_summary_eq:
  "print_summary rows w =
     (w\<lparr>stdout := stdout w @ (if rows = [] then [No_results_found] else [Summary_header, Data_frame rows])\<rparr>,
      Inr ())"
  by (simp add: print_summary_def print_def io_bind_def)

lemma main_eq:
  "main optimize inp w =
     (case load_phase inp of
        Inl e \<Rightarrow> (w, Inl e)
      | Inr loaded \<Rightarrow>
         (case scenario_loop optimize loaded (scenarios inp) [] w of
            (w', Inl e) \<Rightarrow> (w', Inl e)
          | (w', Inr rows) \<Rightarrow>
              (w'\<lparr>stdout := stdout w' @
                   (if rows = [] then [No_results_found] else [Summary_header, Data_frame rows])\<rparr>,
               Inr rows)))"
  by (simp add: main_def io_bind_def io_lift_def io_return_def print_summary_eq
      split: sum.splits prod.splits)





text \<open>
  Claim C8. With an empty scenario list, after a load phase that succeeds, the main
  program leaves a summary without rows and prints the line \<open>No results found\<close> and
  nothing else: neither the header nor a table.
\<close>

theorem C8_empty_scenario_list:
  assumes "scenarios inp = []" and "load_phase inp = Inr loaded"
  shows "main optimize inp w = (w\<lparr>stdout := stdout w @ [No_results_found]\<rparr>, Inr [])"
  using assms by (simp add: main_eq io_return_def)

theorem C8_empty_scenario_list_witness:
  "main sample_solver (sample_inputs (replicate 24 0) []) empty_world =
     (\<lparr>dirs = {}, files = {}, stdout = [No_results_found]\<rparr>, Inr [])"
proof -
  have "scenarios (sample_inputs (replicate 24 0) []) = []"
    by (simp add: sample_inputs_def)
  from C8_empty_scenario_list [OF this sample_load_phase, of sample_solver empty_world]
  show ?thesis by (simp add: empty_world_def)
qed

section \<open>Failures\<close>

lemma tight_model_infeasible:
  assumes "build_model (sample_args n cap) = Inr m" and "cap < 0"
  shows "\<not> list_all (in_bounds x) (vars m)"
proof -
  have "\<lparr>dvar = Var_g_imp 0, lb = Fin 0, ub = Fin cap, dvtype = CONTINUOUS\<rparr>
      \<in> set (family_decls Var_g_imp (Fin 0) (Fin cap))"
    by (simp add: family_decls_def HOURS_def image_iff)
  then have "\<lparr>dvar = Var_g_imp 0, lb = Fin 0, ub = Fin cap, dvtype = CONTINUOUS\<rparr> \<in> set (vars m)"
    by (simp add: build_model_InrD(2) [OF assms(1)] all_decls_def sample_args_def)
  moreover have "\<not> in_bounds x \<lparr>dvar = Var_g_imp 0, lb = Fin 0, ub = Fin cap, dvtype = CONTINUOUS\<rparr>"
    using assms(2) by (simp add: in_bounds_def)
  ultimately show ?thesis
    by (auto simp: list_all_iff)
qed

lemma sample_scenario_name:
  "scenario (sample_args n cap) = n" and "scenario ((sample_args n cap)\<lparr>Pt_PV := pv\<rparr>) = n"
  by (simp_all add: sample_args_def)

lemma sample_scenarios: "scenarios (sample_inputs pv scs) = scs"
  by (simp add: sample_inputs_def)


lemma scenario_loop_raises:
  assumes "call_args loaded sc = Inr a"
    and "run_model_1b optimize a (w\<lparr>stdout := stdout w @ [Running (scenario a)]\<rparr>) = (w', Inl e)"
  shows "scenario_loop optimize loaded (sc # rest) acc w = (w', Inl e)"
  by (simp add: io_bind_def scenario_step_eq [OF assms(1)] assms(2))

text \<open>
  Claim C1 fails on the code. The scenario \<open>tight\<close> has the import cap \<open>-1\<close>, so that no
  assignment respects the bounds of its model (lemma \<open>tight_model_infeasible\<close>) and the
  solver reports \<open>INFEASIBLE\<close> without a solution. The run prints that the model is
  infeasible and then raises \<open>AttributeError\<close> at the first read of \<open>X\<close> (line 67)
  instead of returning a result without objective. The main program, given this
  scenario and a second one, ends with this exception: the second scenario is never run
  and no summary is printed.
\<close>

theorem C1_infeasible_scenario_aborts:
  "run_model_1b sample_solver (sample_args ''tight'' (- 1)) empty_world =
     (\<lparr>dirs = {''src'', ''src/scenario-results''}, files = {}, stdout = [Is_infeasible ''tight'']\<rparr>,
      Inl (AttributeError ''X''))
   \<and> main sample_solver
        (sample_inputs (replicate 24 0) [sample_scenario ''tight'' (- 1), sample_scenario ''base'' 1000])
        empty_world =
     (\<lparr>dirs = {''src'', ''src/scenario-results''}, files = {},
       stdout = [Running ''tight'', Is_infeasible ''tight'']\<rparr>,
      Inl (AttributeError ''X''))"
proof -
  have 1: "run_model_1b sample_solver (sample_args ''tight'' (- 1)) empty_world =
     (\<lparr>dirs = {''src'', ''src/scenario-results''}, files = {}, stdout = [Is_infeasible ''tight'']\<rparr>,
      Inl (AttributeError ''X''))"
    by (simp add: sample_run_infeasible world_after_def empty_world_def)
  have r: "run_model_1b sample_solver (sample_args ''tight'' (- 1))
      (empty_world\<lparr>stdout := stdout empty_world @ [Running (scenario (sample_args ''tight'' (- 1)))]\<rparr>) =
     (\<lparr>dirs = {''src'', ''src/scenario-results''}, files = {},
       stdout = [Running ''tight'', Is_infeasible ''tight'']\<rparr>,
      Inl (AttributeError ''X''))"
    by (simp add: sample_run_infeasible world_after_def empty_world_def sample_scenario_name)
  have "scenario_loop sample_solver (0, 3, replicate 24 0, replicate 24 0)
      [sample_scenario ''tight'' (- 1), sample_scenario ''base'' 1000] [] empty_world =
     (\<lparr>dirs = {''src'', ''src/scenario-results''}, files = {},
       stdout = [Running ''tight'', Is_infeasible ''tight'']\<rparr>,
      Inl (AttributeError ''X''))"
    using sample_call_args r by (rule scenario_loop_raises)
  note l = this
  have 2: "main sample_solver
        (sample_inputs (replicate 24 0) [sample_scenario ''tight'' (- 1), sample_scenario ''base'' 1000])
        empty_world =
     (\<lparr>dirs = {''src'', ''src/scenario-results''}, files = {},
       stdout = [Running ''tight'', Is_infeasible ''tight'']\<rparr>,
      Inl (AttributeError ''X''))"
    by (simp add: main_eq sample_load_phase sample_scenarios l del: scenario_loop.simps)
  from 1 2 show ?thesis by blast
qed













end
